theory Spec2Isabelle
  imports Complex_Main
begin

section \<open>Data model\<close>

text \<open>
  The backend keeps Projects and Investments in document collections and changes them
  from Express route handlers. Documents are records, a collection is part of an explicit
  store that every handler takes and returns, and an \<open>ErrorResponse\<close> passed to
  \<open>next\<close> is the \<open>Inl\<close> branch of the handler's result.

  JavaScript numbers that carry money are modelled as exact rationals (\<open>rat\<close>); the
  rounding of IEEE doubles is outside the model. Document ids are natural numbers,
  timestamps are milliseconds as integers.
\<close>

text \<open>utils/constants.js: \<open>PROJECT_STATUSES\<close> and \<open>INVESTMENT_STATUSES\<close>.\<close>

datatype project_status = P_Draft | P_Pending | P_Active | P_Funded | P_Completed | P_Cancelled

datatype investment_status = Pending | Completed | Cancelled | Refunded

record metrics =
  views :: int
  favorites :: int

record project =
  title :: string
  p_status :: project_status
  fundingGoal :: rat
  fundingRaised :: rat
  fundingDeadline :: int
  minInvestment :: rat
  accreditedOnly :: bool
  owner :: nat
  p_metrics :: metrics

record investment =
  i_id :: nat
  investor :: nat
  i_project :: nat
  amount :: rat
  paymentMethod :: string
  paymentId :: "string option"
  transactionFee :: "rat option"
  i_status :: investment_status

record investor_profile =
  accreditedStatus :: string

record user =
  u_id :: nat
  role :: string
  investorProfile :: "investor_profile option"
  stripeCustomerId :: "string option"

text \<open>
  The part of \<open>req.body\<close> of \<open>POST /api/projects/:projectId/investments\<close> that the
  handler reads or hands on unchanged to \<open>Investment.create\<close>. The route has no
  validation middleware, so \<open>status\<close> is whatever the client sent (\<open>None\<close> when the
  field is absent); \<open>b_paymentDetails\<close> is \<open>paymentDetails.paymentMethodId\<close>, or
  \<open>None\<close> when \<open>paymentDetails\<close> is absent.
\<close>

record investment_body =
  b_amount :: rat
  b_paymentMethod :: string
  b_paymentDetails :: "string option"
  b_status :: "investment_status option"

subsection \<open>Errors\<close>

text \<open>
  \<open>new ErrorResponse(message, statusCode)\<close>. A message is kept as its template and the
  values interpolated into it.
\<close>

datatype message =
    ProjectNotFound nat                \<comment> \<open>\<open>Project not found with id of ${id}\<close>\<close>
  | NotAcceptingInvestments            \<comment> \<open>\<open>Project is not currently accepting investments\<close>\<close>
  | DeadlinePassed                     \<comment> \<open>\<open>Funding deadline has passed\<close>\<close>
  | MinimumInvestment rat              \<comment> \<open>\<open>Minimum investment amount is ${project.minInvestment}\<close>\<close>
  | AccreditedInvestorsOnly            \<comment> \<open>\<open>This project is only available to accredited investors\<close>\<close>
  | PaymentProcessingFailed message    \<comment> \<open>\<open>Payment processing failed: ${err.message}\<close>\<close>
  | PaymentFailed string               \<comment> \<open>\<open>Payment failed: ${error.message}\<close>\<close>
  | UnsupportedPaymentMethod           \<comment> \<open>\<open>Unsupported payment method\<close>\<close>
  | InvestmentNotFound nat             \<comment> \<open>\<open>Investment not found with id of ${id}\<close>\<close>
  | NotAuthorizedToCancel nat          \<comment> \<open>\<open>User ${req.user.id} is not authorized to cancel this investment\<close>\<close>
  | OnlyPendingCancellable             \<comment> \<open>\<open>Only pending investments can be cancelled\<close>\<close>
  | RefundProcessingFailed message     \<comment> \<open>\<open>Refund processing failed: ${err.message}\<close>\<close>
  | RefundFailed string                \<comment> \<open>\<open>Refund failed: ${error.message}\<close>\<close>
  | InvalidPaymentId                   \<comment> \<open>\<open>Invalid payment ID\<close>\<close>
  | NotAuthorizedRoute                 \<comment> \<open>\<open>Not authorized to access this route\<close>\<close>
  | UserNotFound                       \<comment> \<open>\<open>User not found\<close>\<close>
  | RoleNotAuthorized string           \<comment> \<open>\<open>User role ${req.user.role} is not authorized to access this route\<close>\<close>
  | BadSkipValue                       \<comment> \<open>the database driver rejecting a negative skip\<close>
  | TypeError                          \<comment> \<open>a property read on \<open>null\<close> or \<open>undefined\<close>\<close>

datatype error = ErrorResponse message nat

fun statusCode :: "error \<Rightarrow> nat" where
  "statusCode (ErrorResponse m c) = c"

subsection \<open>Strings and numbers of the JavaScript runtime\<close>

definition startsWith :: "string \<Rightarrow> string \<Rightarrow> bool" where
  "startsWith s p = (take (length p) s = p)"

text \<open>A string is truthy unless it is empty; \<open>undefined\<close> is falsy.\<close>

fun truthy :: "string option \<Rightarrow> bool" where
  "truthy None = False"
| "truthy (Some s) = (s \<noteq> [])"

text \<open>\<open>Math.round\<close>: the nearest integer, halves rounded up.\<close>

definition js_round :: "rat \<Rightarrow> int" where
  "js_round x = \<lfloor>x + 1 / 2\<rfloor>"

text \<open>The decimal text of a non-negative integer, as in \<open>`bank_${Date.now()}`\<close>.\<close>

fun show_nat :: "nat \<Rightarrow> string" where
  "show_nat n =
     (if n < 10 then [''0123456789'' ! n]
      else show_nat (n div 10) @ [''0123456789'' ! (n mod 10)])"

declare show_nat.simps [simp del]

section \<open>services/paymentService.js\<close>

text \<open>
  Stripe is an external service: its two calls are parameters. Each returns the id and
  the status of the created object, or \<open>Inl\<close> the message of the exception it throws.
\<close>

record stripe =
  paymentIntents_create :: "int \<Rightarrow> string \<Rightarrow> string option \<Rightarrow> string + (string \<times> string)"
  refunds_create :: "string \<Rightarrow> int \<Rightarrow> string + (string \<times> string)"

record payment_result =
  pr_paymentId :: string
  pr_fee :: rat
  pr_status :: string

record refund_result =
  refundId :: string
  rf_status :: string

text \<open>
  \<open>processPayment\<close>. In the \<open>credit_card\<close> case every statement is inside the
  \<open>try\<close>, so reading \<open>paymentDetails.paymentMethodId\<close> of an absent
  \<open>paymentDetails\<close> is rethrown as \<open>Payment failed\<close> too.
\<close>

definition processPayment ::
  "stripe \<Rightarrow> nat \<Rightarrow> rat \<Rightarrow> string \<Rightarrow> string option \<Rightarrow> user \<Rightarrow> project
     \<Rightarrow> error + payment_result" where
  "processPayment st now amt method details usr proj =
     (let fee = amt * (2 / 100) in
      if method = ''credit_card'' then
        (case details of
           None \<Rightarrow> Inl (ErrorResponse (PaymentFailed ''Cannot read properties of undefined'') 400)
         | Some pm \<Rightarrow>
             (case paymentIntents_create st (js_round ((amt + fee) * 100)) pm
                     (stripeCustomerId usr) of
                Inl msg \<Rightarrow> Inl (ErrorResponse (PaymentFailed msg) 400)
              | Inr (pid, pstatus) \<Rightarrow>
                  Inr \<lparr>pr_paymentId = pid, pr_fee = fee,
                       pr_status = (if pstatus = ''succeeded'' then ''succeeded''
                                    else ''pending'')\<rparr>))
      else if method = ''bank_transfer'' then
        Inr \<lparr>pr_paymentId = ''bank_'' @ show_nat now, pr_fee = fee, pr_status = ''pending''\<rparr>
      else if method = ''wire'' then
        Inr \<lparr>pr_paymentId = ''wire_'' @ show_nat now, pr_fee = fee, pr_status = ''pending''\<rparr>
      else if method = ''crypto'' then
        Inr \<lparr>pr_paymentId = ''crypto_'' @ show_nat now, pr_fee = fee, pr_status = ''pending''\<rparr>
      else Inl (ErrorResponse UnsupportedPaymentMethod 400))"

definition processRefund :: "stripe \<Rightarrow> nat \<Rightarrow> string \<Rightarrow> rat \<Rightarrow> error + refund_result" where
  "processRefund st now pid amt =
     (if startsWith pid ''pi_'' then
        (case refunds_create st pid (js_round (amt * 100)) of
           Inl msg \<Rightarrow> Inl (ErrorResponse (RefundFailed msg) 400)
         | Inr (rid, rstatus) \<Rightarrow> Inr \<lparr>refundId = rid, rf_status = rstatus\<rparr>)
      else if startsWith pid ''bank_'' \<or> startsWith pid ''wire_'' \<or> startsWith pid ''crypto_'' then
        Inr \<lparr>refundId = ''refund_'' @ show_nat now, rf_status = ''pending''\<rparr>
      else Inl (ErrorResponse InvalidPaymentId 400))"

section \<open>The store\<close>

text \<open>
  \<open>gatewayCalls\<close> is the trace of the calls the controllers make to the payment
  service, in order: it makes "the gateway was (not) invoked" a property of the state.
  \<open>nextId\<close> is the source of fresh \<open>_id\<close>s for created documents.
\<close>

datatype gateway_call =
    ProcessPayment rat string
  | ProcessRefund string rat

record state =
  projects :: "nat \<rightharpoonup> project"
  investments :: "investment list"
  nextId :: nat
  gatewayCalls :: "gateway_call list"

definition findById :: "investment list \<Rightarrow> nat \<Rightarrow> investment option" where
  "findById invs k = find (\<lambda>i. i_id i = k) invs"

text \<open>\<open>investment.save()\<close>: the stored document with this \<open>_id\<close> is replaced.\<close>

definition save_investment :: "investment \<Rightarrow> investment list \<Rightarrow> investment list" where
  "save_investment iv invs = map (\<lambda>i. if i_id i = i_id iv then iv else i) invs"

text \<open>
  Modelled from the spec: the default of \<open>status\<close> in the Investment schema
  (models/Investment.js is not among the sources). The spec has an Investment that did
  not succeed synchronously "created with status = pending".
\<close>

definition default_status :: investment_status where
  "default_status = Pending"

text \<open>The \<open>$match\<close> stage of the aggregation in \<open>createInvestment\<close>.\<close>

definition completedFor :: "nat \<Rightarrow> investment list \<Rightarrow> investment list" where
  "completedFor pid invs = filter (\<lambda>i. i_project i = pid \<and> i_status i = Completed) invs"

text \<open>
  \<open>Investment.aggregate([{$match: ...}, {$group: {_id: '$project', totalFunding: {$sum:
  '$amount'}}}])\<close>: one group when a document matches, no group otherwise.
\<close>

definition aggregate_totalFunding :: "nat \<Rightarrow> investment list \<Rightarrow> rat list" where
  "aggregate_totalFunding pid invs =
     (if completedFor pid invs = [] then []
      else [sum_list (map amount (completedFor pid invs))])"

section \<open>controllers/investmentController.js\<close>

text \<open>The accreditation gate of \<open>createInvestment\<close>.\<close>

definition not_accredited :: "user \<Rightarrow> bool" where
  "not_accredited usr =
     (case investorProfile usr of
        None \<Rightarrow> True
      | Some pr \<Rightarrow> accreditedStatus pr \<noteq> ''accredited'')"

text \<open>
  The statements of \<open>createInvestment\<close> after the payment service returned.
  \<open>Investment.create\<close> and \<open>project.save\<close> are taken to succeed: the validators of the
  schemas are not among the sources.
\<close>

definition persistInvestment ::
  "state \<Rightarrow> user \<Rightarrow> nat \<Rightarrow> project \<Rightarrow> investment_body \<Rightarrow> payment_result
     \<Rightarrow> (error + investment) \<times> state" where
  "persistInvestment s usr projectId proj body r =
     (let status = (if pr_status r = ''succeeded'' then Some Completed else b_status body);
          iv = \<lparr>i_id = nextId s, investor = u_id usr, i_project = projectId,
                 amount = b_amount body, paymentMethod = b_paymentMethod body,
                 paymentId = Some (pr_paymentId r), transactionFee = Some (pr_fee r),
                 i_status = (case status of None \<Rightarrow> default_status | Some x \<Rightarrow> x)\<rparr>;
          invs = investments s @ [iv];
          totalFunded = aggregate_totalFunding projectId invs;
          proj1 = (case totalFunded of [] \<Rightarrow> proj | t # ts \<Rightarrow> proj\<lparr>fundingRaised := t\<rparr>);
          proj2 = (if fundingRaised proj1 \<ge> fundingGoal proj1
                   then proj1\<lparr>p_status := P_Funded\<rparr> else proj1)
      in (Inr iv,
          s\<lparr>investments := invs, nextId := Suc (nextId s),
            projects := (projects s)(projectId \<mapsto> proj2)\<rparr>))"

definition createInvestment ::
  "stripe \<Rightarrow> nat \<Rightarrow> state \<Rightarrow> user \<Rightarrow> nat \<Rightarrow> investment_body \<Rightarrow> (error + investment) \<times> state" where
  "createInvestment st now s usr projectId body =
     (case projects s projectId of
        None \<Rightarrow> (Inl (ErrorResponse (ProjectNotFound projectId) 404), s)
      | Some proj \<Rightarrow>
          if p_status proj \<noteq> P_Active then
            (Inl (ErrorResponse NotAcceptingInvestments 400), s)
          else if int now > fundingDeadline proj then
            (Inl (ErrorResponse DeadlinePassed 400), s)
          else if b_amount body < minInvestment proj then
            (Inl (ErrorResponse (MinimumInvestment (minInvestment proj)) 400), s)
          else if accreditedOnly proj \<and> not_accredited usr then
            (Inl (ErrorResponse AccreditedInvestorsOnly 403), s)
          else
            (let s1 = s\<lparr>gatewayCalls := gatewayCalls s
                          @ [ProcessPayment (b_amount body) (b_paymentMethod body)]\<rparr>
             in case processPayment st now (b_amount body) (b_paymentMethod body)
                       (b_paymentDetails body) usr proj of
                  Inl (ErrorResponse m c) \<Rightarrow>
                    (Inl (ErrorResponse (PaymentProcessingFailed m) 400), s1)
                | Inr r \<Rightarrow> persistInvestment s1 usr projectId proj body r))"

text \<open>
  The refund block of \<open>cancelInvestment\<close>: \<open>if (investment.paymentId) { try { await
  paymentService.processRefund(...) } catch ... }\<close>. The result is the calls made to the
  payment service and the error thrown, if any.
\<close>

definition refundIfPaid ::
  "stripe \<Rightarrow> nat \<Rightarrow> investment \<Rightarrow> gateway_call list \<times> (error + unit)" where
  "refundIfPaid st now iv =
     (case paymentId iv of
        None \<Rightarrow> ([], Inr ())
      | Some p \<Rightarrow>
          if p = [] then ([], Inr ())
          else ([ProcessRefund p (amount iv)],
                (case processRefund st now p (amount iv) of
                   Inl e \<Rightarrow> Inl e
                 | Inr r \<Rightarrow> Inr ())))"

text \<open>
  \<open>cancelInvestment\<close>. After the investment is saved as cancelled the project is
  loaded again; when it no longer exists, \<open>project.fundingRaised\<close> throws and the
  error boundary answers 500 with the investment already cancelled.
\<close>

definition cancelInvestment ::
  "stripe \<Rightarrow> nat \<Rightarrow> state \<Rightarrow> user \<Rightarrow> nat \<Rightarrow> (error + investment) \<times> state" where
  "cancelInvestment st now s usr k =
     (case findById (investments s) k of
        None \<Rightarrow> (Inl (ErrorResponse (InvestmentNotFound k) 404), s)
      | Some iv \<Rightarrow>
          if investor iv \<noteq> u_id usr \<and> role usr \<noteq> ''admin'' then
            (Inl (ErrorResponse (NotAuthorizedToCancel (u_id usr)) 403), s)
          else if i_status iv \<noteq> Pending then
            (Inl (ErrorResponse OnlyPendingCancellable 400), s)
          else
            (let s1 = s\<lparr>gatewayCalls := gatewayCalls s @ fst (refundIfPaid st now iv)\<rparr>
             in case snd (refundIfPaid st now iv) of
                  Inl (ErrorResponse m c) \<Rightarrow>
                    (Inl (ErrorResponse (RefundProcessingFailed m) 400), s1)
                | Inr u \<Rightarrow>
                    (let iv' = iv\<lparr>i_status := Cancelled\<rparr>;
                         s2 = s1\<lparr>investments := save_investment iv' (investments s1)\<rparr>
                     in case projects s2 (i_project iv) of
                          None \<Rightarrow> (Inl (ErrorResponse TypeError 500), s2)
                        | Some proj \<Rightarrow>
                            (Inr iv',
                             s2\<lparr>projects := (projects s2)(i_project iv \<mapsto>
                                   proj\<lparr>fundingRaised := fundingRaised proj - amount iv\<rparr>)\<rparr>))))"

section \<open>controllers/projectController.js\<close>

definition getProject :: "state \<Rightarrow> nat \<Rightarrow> (error + project) \<times> state" where
  "getProject s k =
     (case projects s k of
        None \<Rightarrow> (Inl (ErrorResponse (ProjectNotFound k) 404), s)
      | Some proj \<Rightarrow>
          (let proj' = proj\<lparr>p_metrics := (p_metrics proj)\<lparr>views := views (p_metrics proj) + 1\<rparr>\<rparr>
           in (Inr proj', s\<lparr>projects := (projects s)(k \<mapsto> proj')\<rparr>)))"

section \<open>utils/advancedResults.js\<close>

subsection \<open>The filter text\<close>

text \<open>
  \<open>req.query\<close> as Express parses it: strings, arrays and nested objects, so that
  \<open>?minInvestment[gt]=100\<close> arrives as \<open>{minInvestment: {gt: '100'}}\<close>.
\<close>

datatype qvalue = QStr string | QArr "qvalue list" | QObj "(string \<times> qvalue) list"

text \<open>\<open>JSON.stringify\<close> on such values; in a string, the quote and the backslash are escaped.\<close>

definition json_string :: "string \<Rightarrow> string" where
  "json_string s =
     [CHR 0x22]
     @ concat (map (\<lambda>c. if c = CHR 0x22 \<or> c = CHR 0x5C then [CHR 0x5C, c] else [c]) s)
     @ [CHR 0x22]"

fun join_comma :: "string list \<Rightarrow> string" where
  "join_comma [] = []"
| "join_comma [x] = x"
| "join_comma (x # y # ys) = x @ '','' @ join_comma (y # ys)"

fun stringify :: "qvalue \<Rightarrow> string"
  and stringify_elems :: "qvalue list \<Rightarrow> string list"
  and stringify_members :: "(string \<times> qvalue) list \<Rightarrow> string list" where
  "stringify (QStr s) = json_string s"
| "stringify (QArr vs) = ''['' @ join_comma (stringify_elems vs) @ '']''"
| "stringify (QObj kvs) = ''{'' @ join_comma (stringify_members kvs) @ ''}''"
| "stringify_elems [] = []"
| "stringify_elems (v # vs) = stringify v # stringify_elems vs"
| "stringify_members [] = []"
| "stringify_members ((k, v) # kvs) =
     (json_string k @ '':'' @ stringify v) # stringify_members kvs"

definition removeFields :: "string list" where
  "removeFields = [''select'', ''sort'', ''page'', ''limit'']"

definition reqQuery :: "(string \<times> qvalue) list \<Rightarrow> (string \<times> qvalue) list" where
  "reqQuery query = filter (\<lambda>(k, v). k \<notin> set removeFields) query"

text \<open>
  \<open>queryStr.replace(/\b(gt|gte|lt|lte|in)\b/g, callback)\<close>. A word character is one of
  \<open>[A-Za-z0-9_]\<close>, and \<open>\b\<close> holds only where a word character meets a character that
  is none; so a match is a maximal run of word characters that is one of the five
  operator names, and the result replaces each such run by what the callback returns.
  \<open>replace_scan\<close> carries the run read so far.
\<close>

definition is_word_char :: "char \<Rightarrow> bool" where
  "is_word_char c =
     (c \<in> set ''abcdefghijklmnopqrstuvwxyzABCDEFGHIJKLMNOPQRSTUVWXYZ0123456789_'')"

definition operators :: "string list" where
  "operators = [''gt'', ''gte'', ''lt'', ''lte'', ''in'']"

definition replace_run :: "(string \<Rightarrow> string) \<Rightarrow> string \<Rightarrow> string" where
  "replace_run callback w = (if w \<in> set operators then callback w else w)"

fun replace_scan :: "(string \<Rightarrow> string) \<Rightarrow> string \<Rightarrow> string \<Rightarrow> string" where
  "replace_scan callback w [] = replace_run callback w"
| "replace_scan callback w (c # cs) =
     (if is_word_char c then replace_scan callback (w @ [c]) cs
      else replace_run callback w @ c # replace_scan callback [] cs)"

definition replace_operators :: "(string \<Rightarrow> string) \<Rightarrow> string \<Rightarrow> string" where
  "replace_operators callback s = replace_scan callback [] s"

text \<open>
  The text that \<open>advancedResults\<close> parses into the filter of \<open>model.find\<close> and
  \<open>model.countDocuments\<close>. The callback of the source is \<open>match => `${match}`\<close>: it
  returns the match.
\<close>

definition queryStr :: "(string \<times> qvalue) list \<Rightarrow> string" where
  "queryStr query = replace_operators (\<lambda>match. match) (stringify (QObj (reqQuery query)))"

subsection \<open>Pagination\<close>











subsection \<open>utils/helpers.js: \<open>paginateArray\<close>\<close>






section \<open>src/context/ProjectContext.js\<close>




section \<open>middleware/auth.js\<close>

text \<open>
  \<open>jwt.verify(token, secret)\<close> belongs to an external library: it is a parameter that
  returns the \<open>id\<close> of the decoded payload (\<open>None\<close> when the payload has none) or
  \<open>Inl\<close> the error it throws.
\<close>

datatype jwt_error = TokenExpiredError | JsonWebTokenError

type_synonym jwt_verify = "string \<Rightarrow> string \<Rightarrow> jwt_error + nat option"

text \<open>\<open>s.split(sep)\<close> for a one-character separator.\<close>

fun split :: "char \<Rightarrow> string \<Rightarrow> string list" where
  "split sep [] = [[]]"
| "split sep (c # cs) =
     (if c = sep then [] # split sep cs
      else (case split sep cs of [] \<Rightarrow> [[c]] | w # ws \<Rightarrow> (c # w) # ws))"

text \<open>\<open>xs[i]\<close>, \<open>undefined\<close> out of range.\<close>

definition index :: "'a list \<Rightarrow> nat \<Rightarrow> 'a option" where
  "index xs i = (if i < length xs then Some (xs ! i) else None)"

text \<open>The token that \<open>protect\<close> takes from the \<open>Authorization\<close> header.\<close>

definition bearer_token :: "string option \<Rightarrow> string option" where
  "bearer_token authorization =
     (case authorization of
        None \<Rightarrow> None
      | Some h \<Rightarrow>
          if h \<noteq> [] \<and> startsWith h ''Bearer'' then index (split CHR '' '' h) 1 else None)"

definition protect ::
  "jwt_verify \<Rightarrow> string \<Rightarrow> (nat \<rightharpoonup> user) \<Rightarrow> string option \<Rightarrow> error + user" where
  "protect verify secret users authorization =
     (case bearer_token authorization of
        None \<Rightarrow> Inl (ErrorResponse NotAuthorizedRoute 401)
      | Some token \<Rightarrow>
          if token = [] then Inl (ErrorResponse NotAuthorizedRoute 401)
          else
            (case verify token secret of
               Inl err \<Rightarrow> Inl (ErrorResponse NotAuthorizedRoute 401)
             | Inr decoded_id \<Rightarrow>
                 (case (case decoded_id of None \<Rightarrow> None | Some i \<Rightarrow> users i) of
                    None \<Rightarrow> Inl (ErrorResponse UserNotFound 404)
                  | Some usr \<Rightarrow> Inr usr)))"

definition authorize :: "string list \<Rightarrow> user \<Rightarrow> error + user" where
  "authorize roles usr =
     (if role usr \<notin> set roles then Inl (ErrorResponse (RoleNotAuthorized (role usr)) 403)
      else Inr usr)"

text \<open>
  A protected operation of the routers: \<open>protect\<close>, then \<open>authorize(...roles)\<close>, then the
  handler. \<open>Inr usr\<close> is the request reaching the handler with \<open>req.user = usr\<close>.
\<close>

definition protected_route ::
  "jwt_verify \<Rightarrow> string \<Rightarrow> (nat \<rightharpoonup> user) \<Rightarrow> string list \<Rightarrow> string option
     \<Rightarrow> error + user" where
  "protected_route verify secret users roles authorization =
     (case protect verify secret users authorization of
        Inl e \<Rightarrow> Inl e
      | Inr usr \<Rightarrow> authorize roles usr)"

section \<open>Sequences of ledger operations\<close>

text \<open>
  A client's use of the ledger is a sequence of calls of the two handlers, each on the
  store the previous one left.
\<close>

datatype ledger_op = Create user nat investment_body | Cancel user nat

fun apply_ledger_op :: "stripe \<Rightarrow> nat \<Rightarrow> state \<Rightarrow> ledger_op \<Rightarrow> state" where
  "apply_ledger_op st now s (Create usr pid body) = snd (createInvestment st now s usr pid body)"
| "apply_ledger_op st now s (Cancel usr k) = snd (cancelInvestment st now s usr k)"

definition run_ledger :: "stripe \<Rightarrow> nat \<Rightarrow> state \<Rightarrow> ledger_op list \<Rightarrow> state" where
  "run_ledger st now s ops = foldl (apply_ledger_op st now) s ops"

text \<open>The sum of the amounts of the completed Investments of a project.\<close>

definition completedTotal :: "state \<Rightarrow> nat \<Rightarrow> rat" where
  "completedTotal s pid = sum_list (map amount (completedFor pid (investments s)))"

text \<open>
  The ledger invariant of the data model: \<open>fundingRaised\<close> equals the sum of the amounts of
  the project's completed Investments.
\<close>

definition ledger_consistent :: "state \<Rightarrow> nat \<Rightarrow> bool" where
  "ledger_consistent s pid =
     (case projects s pid of
        None \<Rightarrow> True
      | Some proj \<Rightarrow> fundingRaised proj = completedTotal s pid)"

section \<open>Sample data\<close>

text \<open>
  A project with goal 10000 and minimum 100 that is open until time 100, an investor, a
  manager, a Stripe that accepts every charge and one that declines everything.
\<close>

definition demo_project :: project where
  "demo_project = \<lparr>title = ''Harbour Lofts'', p_status = P_Active, fundingGoal = 10000,
     fundingRaised = 0, fundingDeadline = 100, minInvestment = 100, accreditedOnly = False,
     owner = 2, p_metrics = \<lparr>views = 0, favorites = 0\<rparr>\<rparr>"

definition demo_user :: user where
  "demo_user = \<lparr>u_id = 5, role = ''investor'', investorProfile = None,
     stripeCustomerId = Some ''cus_5''\<rparr>"

definition demo_state :: state where
  "demo_state = \<lparr>projects = [1 \<mapsto> demo_project], investments = [], nextId = 10,
     gatewayCalls = []\<rparr>"

definition accepting_stripe :: stripe where
  "accepting_stripe = \<lparr>paymentIntents_create = (\<lambda>cents pm cust. Inr (''pi_1'', ''succeeded'')),
     refunds_create = (\<lambda>pid cents. Inr (''re_1'', ''succeeded''))\<rparr>"

definition declining_stripe :: stripe where
  "declining_stripe = \<lparr>paymentIntents_create = (\<lambda>cents pm cust. Inl ''card_declined''),
     refunds_create = (\<lambda>pid cents. Inl ''charge_already_refunded'')\<rparr>"

definition card_body :: "rat \<Rightarrow> investment_body" where
  "card_body a = \<lparr>b_amount = a, b_paymentMethod = ''credit_card'',
     b_paymentDetails = Some ''pm_card_visa'', b_status = None\<rparr>"

definition bank_body :: "rat \<Rightarrow> investment_body" where
  "bank_body a = \<lparr>b_amount = a, b_paymentMethod = ''bank_transfer'',
     b_paymentDetails = None, b_status = None\<rparr>"

text \<open>
  A project document whose \<open>fundingRaised\<close> is 500 while no Investment exists, as
  \<open>Project.create(req.body)\<close> and \<open>findByIdAndUpdate(req.params.id, req.body)\<close> store
  it when the body names the field.
\<close>

definition stale_state :: state where
  "stale_state = demo_state\<lparr>projects := [1 \<mapsto> demo_project\<lparr>fundingRaised := 500\<rparr>]\<rparr>"

definition demo_completed :: investment where
  "demo_completed = \<lparr>i_id = 10, investor = 5, i_project = 1, amount = 1000,
     paymentMethod = ''credit_card'', paymentId = Some ''pi_3'', transactionFee = Some 20,
     i_status = Completed\<rparr>"

definition demo_pending :: investment where
  "demo_pending = \<lparr>i_id = 11, investor = 5, i_project = 1, amount = 500,
     paymentMethod = ''credit_card'', paymentId = Some ''pi_4'', transactionFee = Some 10,
     i_status = Pending\<rparr>"

definition ledger_state :: state where
  "ledger_state = \<lparr>projects = [1 \<mapsto> demo_project\<lparr>fundingRaised := 1000\<rparr>],
     investments = [demo_completed, demo_pending], nextId = 12, gatewayCalls = []\<rparr>"

definition other_user :: user where
  "other_user = \<lparr>u_id = 6, role = ''manager'', investorProfile = None,
     stripeCustomerId = None\<rparr>"

text \<open>A token verifier that knows one valid and one expired token, and the users it resolves to.\<close>

definition demo_verify :: jwt_verify where
  "demo_verify token secret =
     (if secret = ''s3cret'' \<and> token = ''good'' then Inr (Some 6)
      else if secret = ''s3cret'' \<and> token = ''old'' then Inl TokenExpiredError
      else Inl JsonWebTokenError)"

definition demo_users :: "nat \<rightharpoonup> user" where
  "demo_users = [6 \<mapsto> other_user]"

section \<open>Evaluation rules\<close>

lemmas demo_defs = demo_project_def demo_user_def demo_state_def accepting_stripe_def
  declining_stripe_def card_body_def bank_body_def

lemmas ledger_defs = createInvestment_def persistInvestment_def processPayment_def
  processRefund_def cancelInvestment_def refundIfPaid_def aggregate_totalFunding_def completedFor_def
  not_accredited_def default_status_def findById_def save_investment_def startsWith_def
  js_round_def Let_def

lemmas demo2_defs = demo_completed_def demo_pending_def ledger_state_def other_user_def

section \<open>The funding ledger\<close>

subsection \<open>Rejections of \<open>createInvestment\<close>\<close>

text \<open>
  C2. A \<open>createInvestment\<close> call is rejected when the project does not exist (404), when
  its status is not active (400), when the current time is past the funding deadline
  (400), when the amount is below \<open>minInvestment\<close> (400), and when the project is
  accredited-only and the investor is not accredited (403). The checks happen in this
  order, so each error answers the first check that fails; the five errors are pairwise
  distinct; and the store is returned as it was: no Investment is persisted and the trace
  of payment-service calls is not extended.
\<close>

theorem createInvestment_rejections:
  "(projects s pid = None \<longrightarrow>
      createInvestment st now s usr pid body
        = (Inl (ErrorResponse (ProjectNotFound pid) 404), s))
   \<and> (projects s pid = Some proj \<and> p_status proj \<noteq> P_Active \<longrightarrow>
      createInvestment st now s usr pid body
        = (Inl (ErrorResponse NotAcceptingInvestments 400), s))
   \<and> (projects s pid = Some proj \<and> p_status proj = P_Active
        \<and> int now > fundingDeadline proj \<longrightarrow>
      createInvestment st now s usr pid body
        = (Inl (ErrorResponse DeadlinePassed 400), s))
   \<and> (projects s pid = Some proj \<and> p_status proj = P_Active
        \<and> int now \<le> fundingDeadline proj \<and> b_amount body < minInvestment proj \<longrightarrow>
      createInvestment st now s usr pid body
        = (Inl (ErrorResponse (MinimumInvestment (minInvestment proj)) 400), s))
   \<and> (projects s pid = Some proj \<and> p_status proj = P_Active
        \<and> int now \<le> fundingDeadline proj \<and> minInvestment proj \<le> b_amount body
        \<and> accreditedOnly proj \<and> not_accredited usr \<longrightarrow>
      createInvestment st now s usr pid body
        = (Inl (ErrorResponse AccreditedInvestorsOnly 403), s))
   \<and> distinct [ErrorResponse (ProjectNotFound pid) 404,
                ErrorResponse NotAcceptingInvestments 400,
                ErrorResponse DeadlinePassed 400,
                ErrorResponse (MinimumInvestment (minInvestment proj)) 400,
                ErrorResponse AccreditedInvestorsOnly 403]"
  by (simp add: createInvestment_def)

theorem createInvestment_rejections_witness:
  "createInvestment accepting_stripe 7 demo_state demo_user 99 (card_body 1000)
     = (Inl (ErrorResponse (ProjectNotFound 99) 404), demo_state)
   \<and> createInvestment accepting_stripe 7
        (demo_state\<lparr>projects := [1 \<mapsto> demo_project\<lparr>p_status := P_Funded\<rparr>]\<rparr>)
        demo_user 1 (card_body 1000)
     = (Inl (ErrorResponse NotAcceptingInvestments 400),
        demo_state\<lparr>projects := [1 \<mapsto> demo_project\<lparr>p_status := P_Funded\<rparr>]\<rparr>)
   \<and> createInvestment accepting_stripe 101 demo_state demo_user 1 (card_body 1000)
     = (Inl (ErrorResponse DeadlinePassed 400), demo_state)
   \<and> createInvestment accepting_stripe 7 demo_state demo_user 1 (card_body 50)
     = (Inl (ErrorResponse (MinimumInvestment 100) 400), demo_state)
   \<and> createInvestment accepting_stripe 7
        (demo_state\<lparr>projects := [1 \<mapsto> demo_project\<lparr>accreditedOnly := True\<rparr>]\<rparr>)
        demo_user 1 (card_body 1000)
     = (Inl (ErrorResponse AccreditedInvestorsOnly 403),
        demo_state\<lparr>projects := [1 \<mapsto> demo_project\<lparr>accreditedOnly := True\<rparr>]\<rparr>)"
proof -
  have a: "projects demo_state 99 = None"
    by (simp add: demo_state_def)
  have b: "projects (demo_state\<lparr>projects := [1 \<mapsto> demo_project\<lparr>p_status := P_Funded\<rparr>]\<rparr>) 1
             = Some (demo_project\<lparr>p_status := P_Funded\<rparr>)
           \<and> p_status (demo_project\<lparr>p_status := P_Funded\<rparr>) \<noteq> P_Active"
    by simp
  have c: "projects demo_state 1 = Some demo_project \<and> p_status demo_project = P_Active
           \<and> int 101 > fundingDeadline demo_project"
    by (simp add: demo_state_def demo_project_def)
  have d: "projects demo_state 1 = Some demo_project \<and> p_status demo_project = P_Active
           \<and> int 7 \<le> fundingDeadline demo_project
           \<and> b_amount (card_body 50) < minInvestment demo_project"
    by (simp add: demo_state_def demo_project_def card_body_def)
  have e: "projects (demo_state\<lparr>projects := [1 \<mapsto> demo_project\<lparr>accreditedOnly := True\<rparr>]\<rparr>) 1
             = Some (demo_project\<lparr>accreditedOnly := True\<rparr>)
           \<and> p_status (demo_project\<lparr>accreditedOnly := True\<rparr>) = P_Active
           \<and> int 7 \<le> fundingDeadline (demo_project\<lparr>accreditedOnly := True\<rparr>)
           \<and> minInvestment (demo_project\<lparr>accreditedOnly := True\<rparr>) \<le> b_amount (card_body 1000)
           \<and> accreditedOnly (demo_project\<lparr>accreditedOnly := True\<rparr>)
           \<and> not_accredited demo_user"
    by (simp add: demo_project_def card_body_def demo_user_def not_accredited_def)
  have m: "minInvestment demo_project = 100"
    by (simp add: demo_project_def)
  have w1: "createInvestment accepting_stripe 7 demo_state demo_user 99 (card_body 1000)
     = (Inl (ErrorResponse (ProjectNotFound 99) 404), demo_state)"
    using a createInvestment_rejections [where s = demo_state and pid = 99] by simp
  have w2: "createInvestment accepting_stripe 7
        (demo_state\<lparr>projects := [1 \<mapsto> demo_project\<lparr>p_status := P_Funded\<rparr>]\<rparr>)
        demo_user 1 (card_body 1000)
     = (Inl (ErrorResponse NotAcceptingInvestments 400),
        demo_state\<lparr>projects := [1 \<mapsto> demo_project\<lparr>p_status := P_Funded\<rparr>]\<rparr>)"
    using b createInvestment_rejections
      [where s = "demo_state\<lparr>projects := [1 \<mapsto> demo_project\<lparr>p_status := P_Funded\<rparr>]\<rparr>"
         and pid = 1 and proj = "demo_project\<lparr>p_status := P_Funded\<rparr>"]
    by simp
  have w3: "createInvestment accepting_stripe 101 demo_state demo_user 1 (card_body 1000)
     = (Inl (ErrorResponse DeadlinePassed 400), demo_state)"
    using c createInvestment_rejections
      [where s = demo_state and pid = 1 and proj = demo_project and now = 101]
    by simp
  have w4: "createInvestment accepting_stripe 7 demo_state demo_user 1 (card_body 50)
     = (Inl (ErrorResponse (MinimumInvestment 100) 400), demo_state)"
    using d m createInvestment_rejections
      [where s = demo_state and pid = 1 and proj = demo_project and now = 7
         and body = "card_body 50"]
    by simp
  have w5: "createInvestment accepting_stripe 7
        (demo_state\<lparr>projects := [1 \<mapsto> demo_project\<lparr>accreditedOnly := True\<rparr>]\<rparr>)
        demo_user 1 (card_body 1000)
     = (Inl (ErrorResponse AccreditedInvestorsOnly 403),
        demo_state\<lparr>projects := [1 \<mapsto> demo_project\<lparr>accreditedOnly := True\<rparr>]\<rparr>)"
    using e createInvestment_rejections
      [where s = "demo_state\<lparr>projects := [1 \<mapsto> demo_project\<lparr>accreditedOnly := True\<rparr>]\<rparr>"
         and pid = 1 and proj = "demo_project\<lparr>accreditedOnly := True\<rparr>" and now = 7
         and body = "card_body 1000" and usr = demo_user]
    by simp
  from w1 w2 w3 w4 w5 show ?thesis by simp
qed

subsection \<open>Failure of the payment gateway\<close>

text \<open>
  C6. When every precondition holds and the call of the payment service throws,
  \<open>createInvestment\<close> answers the payment error (400, \<open>Payment processing failed\<close>
  around the thrown message), no Investment is persisted, no id is consumed and the
  projects are as they were.
\<close>

theorem createInvestment_payment_failure:
  assumes "projects s pid = Some proj" and "p_status proj = P_Active"
    and "int now \<le> fundingDeadline proj" and "minInvestment proj \<le> b_amount body"
    and "\<not> (accreditedOnly proj \<and> not_accredited usr)"
    and "processPayment st now (b_amount body) (b_paymentMethod body) (b_paymentDetails body)
           usr proj = Inl (ErrorResponse m c)"
  shows "fst (createInvestment st now s usr pid body)
           = Inl (ErrorResponse (PaymentProcessingFailed m) 400)
         \<and> investments (snd (createInvestment st now s usr pid body)) = investments s
         \<and> projects (snd (createInvestment st now s usr pid body)) = projects s
         \<and> nextId (snd (createInvestment st now s usr pid body)) = nextId s"
  using assms by (auto simp add: createInvestment_def Let_def)

theorem createInvestment_payment_failure_witness:
  "fst (createInvestment declining_stripe 7 demo_state demo_user 1 (card_body 1000))
     = Inl (ErrorResponse (PaymentProcessingFailed (PaymentFailed ''card_declined'')) 400)
   \<and> investments (snd (createInvestment declining_stripe 7 demo_state demo_user 1
                          (card_body 1000))) = []
   \<and> projects (snd (createInvestment declining_stripe 7 demo_state demo_user 1
                       (card_body 1000))) 1 = Some demo_project"
proof -
  have a: "projects demo_state 1 = Some demo_project"
    by (simp add: demo_state_def)
  have b: "p_status demo_project = P_Active"
    and c: "int 7 \<le> fundingDeadline demo_project"
    and d: "minInvestment demo_project \<le> b_amount (card_body 1000)"
    and e: "\<not> (accreditedOnly demo_project \<and> not_accredited demo_user)"
    by (simp_all add: demo_project_def card_body_def)
  have f: "processPayment declining_stripe 7 (b_amount (card_body 1000))
             (b_paymentMethod (card_body 1000)) (b_paymentDetails (card_body 1000))
             demo_user demo_project = Inl (ErrorResponse (PaymentFailed ''card_declined'') 400)"
    by (simp add: processPayment_def card_body_def declining_stripe_def)
  from createInvestment_payment_failure [OF a b c d e f] a
  show ?thesis by (simp add: demo_state_def)
qed

subsection \<open>Guards of \<open>cancelInvestment\<close>\<close>

text \<open>
  C3. \<open>cancelInvestment\<close> fails with 404 when the investment is not found, with 403
  when the requester is neither its investor nor an admin, and with 400 when its status
  is not pending, each time leaving the store as it was. For a pending investment with a
  non-empty payment identifier the payment service is asked to refund that identifier
  for the investment's full amount; when this refund throws, the answer is the refund
  error, Investments and Projects are exactly as before the call, and the investment is
  still found with its pending status: nothing is mutated before the refund succeeds.
\<close>

theorem cancelInvestment_guards:
  "(findById (investments s) k = None \<longrightarrow>
      cancelInvestment st now s usr k = (Inl (ErrorResponse (InvestmentNotFound k) 404), s))
   \<and> (findById (investments s) k = Some iv \<and> investor iv \<noteq> u_id usr
        \<and> role usr \<noteq> ''admin'' \<longrightarrow>
      cancelInvestment st now s usr k
        = (Inl (ErrorResponse (NotAuthorizedToCancel (u_id usr)) 403), s))
   \<and> (findById (investments s) k = Some iv
        \<and> (investor iv = u_id usr \<or> role usr = ''admin'') \<and> i_status iv \<noteq> Pending \<longrightarrow>
      cancelInvestment st now s usr k = (Inl (ErrorResponse OnlyPendingCancellable 400), s))
   \<and> (findById (investments s) k = Some iv
        \<and> (investor iv = u_id usr \<or> role usr = ''admin'') \<and> i_status iv = Pending
        \<and> paymentId iv = Some p \<and> p \<noteq> [] \<longrightarrow>
      gatewayCalls (snd (cancelInvestment st now s usr k))
        = gatewayCalls s @ [ProcessRefund p (amount iv)]
      \<and> (\<forall>m c. processRefund st now p (amount iv) = Inl (ErrorResponse m c) \<longrightarrow>
            fst (cancelInvestment st now s usr k)
              = Inl (ErrorResponse (RefundProcessingFailed m) 400)
            \<and> investments (snd (cancelInvestment st now s usr k)) = investments s
            \<and> projects (snd (cancelInvestment st now s usr k)) = projects s
            \<and> findById (investments (snd (cancelInvestment st now s usr k))) k = Some iv))"
  by (auto simp add: cancelInvestment_def refundIfPaid_def Let_def
        split: sum.splits error.splits option.splits)

theorem cancelInvestment_guards_witness:
  "cancelInvestment accepting_stripe 7 ledger_state demo_user 99
     = (Inl (ErrorResponse (InvestmentNotFound 99) 404), ledger_state)
   \<and> cancelInvestment accepting_stripe 7 ledger_state other_user 11
     = (Inl (ErrorResponse (NotAuthorizedToCancel 6) 403), ledger_state)
   \<and> cancelInvestment accepting_stripe 7 ledger_state demo_user 10
     = (Inl (ErrorResponse OnlyPendingCancellable 400), ledger_state)
   \<and> gatewayCalls (snd (cancelInvestment declining_stripe 7 ledger_state demo_user 11))
     = [ProcessRefund ''pi_4'' 500]
   \<and> fst (cancelInvestment declining_stripe 7 ledger_state demo_user 11)
     = Inl (ErrorResponse (RefundProcessingFailed (RefundFailed ''charge_already_refunded'')) 400)
   \<and> findById (investments (snd (cancelInvestment declining_stripe 7 ledger_state
                                    demo_user 11))) 11 = Some demo_pending
   \<and> i_status demo_pending = Pending"
proof -
  have a: "findById (investments ledger_state) 99 = None"
    by (simp add: findById_def demo2_defs)
  have b: "findById (investments ledger_state) 11 = Some demo_pending
           \<and> investor demo_pending \<noteq> u_id other_user \<and> role other_user \<noteq> ''admin''"
    by (simp add: findById_def demo2_defs)
  have c: "findById (investments ledger_state) 10 = Some demo_completed
           \<and> (investor demo_completed = u_id demo_user \<or> role demo_user = ''admin'')
           \<and> i_status demo_completed \<noteq> Pending"
    by (simp add: findById_def demo2_defs demo_user_def)
  have d: "findById (investments ledger_state) 11 = Some demo_pending
           \<and> (investor demo_pending = u_id demo_user \<or> role demo_user = ''admin'')
           \<and> i_status demo_pending = Pending
           \<and> paymentId demo_pending = Some ''pi_4'' \<and> ''pi_4'' \<noteq> []"
    by (simp add: findById_def demo2_defs demo_user_def)
  have e: "processRefund declining_stripe 7 ''pi_4'' (amount demo_pending)
             = Inl (ErrorResponse (RefundFailed ''charge_already_refunded'') 400)"
    by (simp add: processRefund_def startsWith_def declining_stripe_def)
  have g: "gatewayCalls ledger_state = [] \<and> amount demo_pending = 500 \<and> u_id other_user = 6"
    by (simp add: demo2_defs)
  have w1: "cancelInvestment accepting_stripe 7 ledger_state demo_user 99
     = (Inl (ErrorResponse (InvestmentNotFound 99) 404), ledger_state)"
    using a cancelInvestment_guards [where s = ledger_state and k = 99 and usr = demo_user
      and st = accepting_stripe and now = 7] by simp
  have w2: "cancelInvestment accepting_stripe 7 ledger_state other_user 11
     = (Inl (ErrorResponse (NotAuthorizedToCancel 6) 403), ledger_state)"
    using b g cancelInvestment_guards [where s = ledger_state and k = 11 and usr = other_user
      and st = accepting_stripe and now = 7 and iv = demo_pending] by simp
  have w3: "cancelInvestment accepting_stripe 7 ledger_state demo_user 10
     = (Inl (ErrorResponse OnlyPendingCancellable 400), ledger_state)"
    using c cancelInvestment_guards [where s = ledger_state and k = 10 and usr = demo_user
      and st = accepting_stripe and now = 7 and iv = demo_completed] by simp
  have w4: "gatewayCalls (snd (cancelInvestment declining_stripe 7 ledger_state demo_user 11))
     = [ProcessRefund ''pi_4'' 500]
   \<and> fst (cancelInvestment declining_stripe 7 ledger_state demo_user 11)
     = Inl (ErrorResponse (RefundProcessingFailed (RefundFailed ''charge_already_refunded'')) 400)
   \<and> findById (investments (snd (cancelInvestment declining_stripe 7 ledger_state
                                    demo_user 11))) 11 = Some demo_pending"
    using d e g cancelInvestment_guards [where s = ledger_state and k = 11 and usr = demo_user
      and st = declining_stripe and now = 7 and iv = demo_pending and p = "''pi_4''"]
    by simp
  from w1 w2 w3 w4 d show ?thesis by simp
qed

subsection \<open>Funding update after a successful \<open>createInvestment\<close>\<close>

text \<open>
  C4, as the code has it. When every precondition holds and the payment service returns a
  result, the Investment is appended to the collection. If the project then has at least
  one completed Investment, \<open>fundingRaised\<close> is set to the sum of the amounts of all its
  completed Investments (a recomputation, not an increment); if it has none, the
  aggregation returns no group and \<open>fundingRaised\<close> keeps its stored value. The status
  becomes funded exactly when the resulting \<open>fundingRaised\<close> reaches \<open>fundingGoal\<close>. In
  particular, with goal 10000, minimum 100, amount 10000, a payment that succeeds
  synchronously and no earlier completed Investment, the Investment is completed,
  \<open>fundingRaised\<close> is 10000 and the project is funded.
\<close>

theorem createInvestment_funding_update:
  assumes "projects s pid = Some proj" and "p_status proj = P_Active"
    and "int now \<le> fundingDeadline proj" and "minInvestment proj \<le> b_amount body"
    and "\<not> (accreditedOnly proj \<and> not_accredited usr)"
    and "processPayment st now (b_amount body) (b_paymentMethod body) (b_paymentDetails body)
           usr proj = Inr r"
  shows "\<exists>iv proj'.
           fst (createInvestment st now s usr pid body) = Inr iv
         \<and> investments (snd (createInvestment st now s usr pid body)) = investments s @ [iv]
         \<and> projects (snd (createInvestment st now s usr pid body)) pid = Some proj'
         \<and> fundingRaised proj'
             = (if completedFor pid (investments s @ [iv]) = [] then fundingRaised proj
                else sum_list (map amount (completedFor pid (investments s @ [iv]))))
         \<and> p_status proj'
             = (if fundingGoal proj \<le> fundingRaised proj' then P_Funded else P_Active)
         \<and> (fundingGoal proj = 10000 \<and> minInvestment proj = 100 \<and> b_amount body = 10000
              \<and> pr_status r = ''succeeded'' \<and> completedFor pid (investments s) = []
            \<longrightarrow> i_status iv = Completed \<and> fundingRaised proj' = 10000
                \<and> p_status proj' = P_Funded)"
  using assms
  by (simp add: createInvestment_def persistInvestment_def aggregate_totalFunding_def
        completedFor_def Let_def split: list.splits)

theorem createInvestment_funding_update_witness:
  "\<exists>iv proj'.
      fst (createInvestment accepting_stripe 7 demo_state demo_user 1 (card_body 10000)) = Inr iv
    \<and> projects (snd (createInvestment accepting_stripe 7 demo_state demo_user 1
                        (card_body 10000))) 1 = Some proj'
    \<and> i_status iv = Completed \<and> fundingRaised proj' = 10000 \<and> p_status proj' = P_Funded"
proof -
  have a: "projects demo_state 1 = Some demo_project"
    by (simp add: demo_state_def)
  have b: "p_status demo_project = P_Active"
    and c: "int 7 \<le> fundingDeadline demo_project"
    and d: "minInvestment demo_project \<le> b_amount (card_body 10000)"
    and e: "\<not> (accreditedOnly demo_project \<and> not_accredited demo_user)"
    by (simp_all add: demo_project_def card_body_def)
  have f: "processPayment accepting_stripe 7 (b_amount (card_body 10000))
             (b_paymentMethod (card_body 10000)) (b_paymentDetails (card_body 10000))
             demo_user demo_project
             = Inr \<lparr>pr_paymentId = ''pi_1'', pr_fee = 200, pr_status = ''succeeded''\<rparr>"
    by (simp add: processPayment_def card_body_def accepting_stripe_def)
  have g: "fundingGoal demo_project = 10000 \<and> minInvestment demo_project = 100
           \<and> b_amount (card_body 10000) = 10000
           \<and> pr_status \<lparr>pr_paymentId = ''pi_1'', pr_fee = 200, pr_status = ''succeeded''\<rparr>
               = ''succeeded''
           \<and> completedFor 1 (investments demo_state) = []"
    by (simp add: demo_project_def card_body_def demo_state_def completedFor_def)
  from createInvestment_funding_update [OF a b c d e f] g
  show ?thesis by blast
qed

text \<open>
  C4 as stated fails where the stored \<open>fundingRaised\<close> is not already the sum and no
  completed Investment exists: a pending bank transfer of 200 on a project that stores
  \<open>fundingRaised = 500\<close> succeeds and leaves 500 in place, while the sum of the completed
  amounts is 0.
\<close>

theorem createInvestment_funding_counterexample:
  "fst (createInvestment accepting_stripe 7 stale_state demo_user 1 (bank_body 200))
     = Inr \<lparr>i_id = 10, investor = 5, i_project = 1, amount = 200,
            paymentMethod = ''bank_transfer'', paymentId = Some ''bank_7'',
            transactionFee = Some 4, i_status = Pending\<rparr>
   \<and> map_option fundingRaised
         (projects (snd (createInvestment accepting_stripe 7 stale_state demo_user 1
                           (bank_body 200))) 1) = Some 500
   \<and> completedTotal (snd (createInvestment accepting_stripe 7 stale_state demo_user 1
                           (bank_body 200))) 1 = 0
   \<and> \<not> ledger_consistent (snd (createInvestment accepting_stripe 7 stale_state demo_user 1
                                   (bank_body 200))) 1"
  by (simp add: demo_defs ledger_defs stale_state_def completedTotal_def ledger_consistent_def
        show_nat.simps)

subsection \<open>Status of the created Investment\<close>

text \<open>
  C5 at a failing input. The body \<open>{amount: 500, paymentMethod: 'bank_transfer', status:
  'completed'}\<close> passes every precondition; the payment service returns status
  \<open>pending\<close>; the handler overwrites \<open>req.body.status\<close> only after a synchronous
  success, so \<open>Investment.create(req.body)\<close> persists the Investment with the client's
  status \<open>completed\<close>.
\<close>

theorem createInvestment_client_status:
  "map_sum id pr_status
      (processPayment accepting_stripe 7 500 ''bank_transfer'' None demo_user demo_project)
     = Inr ''pending''
   \<and> fst (createInvestment accepting_stripe 7 demo_state demo_user 1
             ((bank_body 500)\<lparr>b_status := Some Completed\<rparr>))
     = Inr \<lparr>i_id = 10, investor = 5, i_project = 1, amount = 500,
            paymentMethod = ''bank_transfer'', paymentId = Some ''bank_7'',
            transactionFee = Some 10, i_status = Completed\<rparr>"
  by (simp add: demo_defs ledger_defs show_nat.simps)

text \<open>
  Without a \<open>status\<close> field in the body the created Investment is completed exactly when
  the payment service reports \<open>succeeded\<close>, and pending otherwise.
\<close>

lemma persistInvestment_status_default:
  assumes "b_status body = None"
    and "persistInvestment s usr pid proj body r = (Inr iv, s')"
  shows "i_status iv = (if pr_status r = ''succeeded'' then Completed else Pending)"
  using assms
  by (auto simp add: persistInvestment_def default_status_def Let_def)

lemma processPayment_offline_methods_pending:
  assumes "method \<in> {''bank_transfer'', ''wire'', ''crypto''}"
  shows "\<exists>r. processPayment st now amt method details usr proj = Inr r
             \<and> pr_status r = ''pending''"
  using assms by (auto simp add: processPayment_def Let_def)

subsection \<open>The ledger invariant over sequences of operations\<close>

text \<open>
  C1 at a failing input. From a consistent store, a completed card investment of 1000, a
  pending bank transfer of 500 and the cancellation of that pending transfer leave
  \<open>fundingRaised = 500\<close> while the completed Investments sum to 1000:
  \<open>cancelInvestment\<close> subtracts the amount of an Investment that was never counted.
\<close>

theorem ledger_drift_after_cancel:
  "ledger_consistent demo_state 1
   \<and> map_option fundingRaised
         (projects (run_ledger accepting_stripe 7 demo_state
            [Create demo_user 1 (card_body 1000), Create demo_user 1 (bank_body 500),
             Cancel demo_user 11]) 1) = Some 500
   \<and> completedTotal (run_ledger accepting_stripe 7 demo_state
            [Create demo_user 1 (card_body 1000), Create demo_user 1 (bank_body 500),
             Cancel demo_user 11]) 1 = 1000
   \<and> \<not> ledger_consistent (run_ledger accepting_stripe 7 demo_state
            [Create demo_user 1 (card_body 1000), Create demo_user 1 (bank_body 500),
             Cancel demo_user 11]) 1"
  by (simp add: demo_defs ledger_defs run_ledger_def ledger_consistent_def completedTotal_def
        show_nat.simps)

section \<open>Reading a project\<close>

text \<open>
  C10. A fetch of an existing project by id answers with the project whose view counter is
  one higher and stores exactly that document under the same id: every other field of the
  project, every other project, the Investments and the trace of payment calls are
  unchanged.
\<close>

theorem getProject_increments_views:
  assumes "projects s k = Some proj"
  shows "fst (getProject s k)
           = Inr (proj\<lparr>p_metrics := (p_metrics proj)\<lparr>views := views (p_metrics proj) + 1\<rparr>\<rparr>)
         \<and> snd (getProject s k)
           = s\<lparr>projects := (projects s)(k \<mapsto>
                 proj\<lparr>p_metrics := (p_metrics proj)\<lparr>views := views (p_metrics proj) + 1\<rparr>\<rparr>)\<rparr>
         \<and> (\<forall>j. j \<noteq> k \<longrightarrow> projects (snd (getProject s k)) j = projects s j)
         \<and> investments (snd (getProject s k)) = investments s
         \<and> gatewayCalls (snd (getProject s k)) = gatewayCalls s"
  using assms by (simp add: getProject_def Let_def)

theorem getProject_increments_views_witness:
  "getProject demo_state 1
     = (Inr (demo_project\<lparr>p_metrics := \<lparr>views = 1, favorites = 0\<rparr>\<rparr>),
        demo_state\<lparr>projects := [1 \<mapsto> demo_project\<lparr>p_metrics := \<lparr>views = 1, favorites = 0\<rparr>\<rparr>]\<rparr>)"
proof -
  have a: "projects demo_state 1 = Some demo_project"
    by (simp add: demo_state_def)
  from getProject_increments_views [OF a] show ?thesis
    by (simp add: demo_state_def demo_project_def prod_eq_iff)
qed

section \<open>The query builder\<close>

subsection \<open>Comparison operators in the filter\<close>

text \<open>
  The callback of the source returns each matched operator name as it is, so the rewriting
  leaves every filter text unchanged.
\<close>

lemma replace_scan_unchanged: "replace_scan (\<lambda>match. match) w s = w @ s"
  by (induction s arbitrary: w) (simp_all add: replace_run_def)

lemma queryStr_unchanged: "queryStr query = stringify (QObj (reqQuery query))"
  by (simp add: queryStr_def replace_operators_def replace_scan_unchanged)

text \<open>
  C7 at a failing input. For \<open>GET /api/projects?minInvestment[gt]=100&page=2\<close> the
  parameter \<open>page\<close> is removed, but the filter text that is parsed and handed to
  \<open>model.find\<close> still names the key \<open>gt\<close>, which is no comparison operator of the
  database; a callback that prefixes the match with \<open>$\<close>, as the comment \<open>Create
  operators ($gt, $gte, etc)\<close> announces, yields \<open>$gt\<close> on the same input.
\<close>

theorem queryStr_keeps_operator_names:
  "queryStr [(''minInvestment'', QObj [(''gt'', QStr ''100'')]), (''page'', QStr ''2'')]
     = ''{\"minInvestment\":{\"gt\":\"100\"}}''
   \<and> replace_operators (\<lambda>match. CHR ''$'' # match)
         (stringify (QObj (reqQuery
            [(''minInvestment'', QObj [(''gt'', QStr ''100'')]), (''page'', QStr ''2'')])))
     = ''{\"minInvestment\":{\"$gt\":\"100\"}}''"
  by (simp add: queryStr_def replace_operators_def reqQuery_def removeFields_def
        json_string_def replace_run_def is_word_char_def operators_def)

subsection \<open>Pagination\<close>









section \<open>Access control\<close>

text \<open>
  C9. \<open>protect\<close> lets a request through exactly when the header carries a non-empty
  bearer token that verifies against the signing secret and whose id resolves to a stored
  User. A missing token and a token whose verification throws (invalid or expired) both
  fail with 401. Behind \<open>protect\<close>, \<open>authorize\<close> lets the request reach the handler
  exactly when the user's role is in the allow-list, and otherwise fails with 403; a 403
  only ever answers an authenticated user whose role is not listed, and 401 and 403 are
  different status codes.
\<close>

theorem protect_authorize_contract:
  "(protect verify secret users authorization = Inr usr
      \<longleftrightarrow> (\<exists>token i. bearer_token authorization = Some token \<and> token \<noteq> []
             \<and> verify token secret = Inr (Some i) \<and> users i = Some usr))
   \<and> (\<not> truthy (bearer_token authorization) \<longrightarrow>
        protect verify secret users authorization = Inl (ErrorResponse NotAuthorizedRoute 401))
   \<and> (bearer_token authorization = Some token \<and> token \<noteq> []
        \<and> verify token secret = Inl err \<longrightarrow>
        protect verify secret users authorization = Inl (ErrorResponse NotAuthorizedRoute 401))
   \<and> (protected_route verify secret users roles authorization = Inr usr
        \<longleftrightarrow> protect verify secret users authorization = Inr usr \<and> role usr \<in> set roles)
   \<and> (protect verify secret users authorization = Inr usr \<and> role usr \<notin> set roles \<longrightarrow>
        protected_route verify secret users roles authorization
          = Inl (ErrorResponse (RoleNotAuthorized (role usr)) 403))
   \<and> (\<forall>e. protected_route verify secret users roles authorization = Inl e \<and> statusCode e = 403
        \<longrightarrow> (\<exists>u. protect verify secret users authorization = Inr u \<and> role u \<notin> set roles))
   \<and> statusCode (ErrorResponse NotAuthorizedRoute 401)
       \<noteq> statusCode (ErrorResponse (RoleNotAuthorized (role usr)) 403)"
  by (auto simp add: protect_def protected_route_def authorize_def
        split: option.splits sum.splits if_splits)



text \<open>Evaluation of the sample verifier.\<close>

lemmas auth_defs = bearer_token_def startsWith_def index_def demo_verify_def demo_users_def

theorem protect_authorize_contract_witness:
  "protect demo_verify ''s3cret'' demo_users (Some ''Bearer good'') = Inr other_user
   \<and> protect demo_verify ''s3cret'' demo_users None
       = Inl (ErrorResponse NotAuthorizedRoute 401)
   \<and> protect demo_verify ''s3cret'' demo_users (Some ''Bearer old'')
       = Inl (ErrorResponse NotAuthorizedRoute 401)
   \<and> protect demo_verify ''s3cret'' demo_users (Some ''Bearer forged'')
       = Inl (ErrorResponse NotAuthorizedRoute 401)
   \<and> protected_route demo_verify ''s3cret'' demo_users [''admin'', ''manager'']
         (Some ''Bearer good'') = Inr other_user
   \<and> protected_route demo_verify ''s3cret'' demo_users [''admin''] (Some ''Bearer good'')
       = Inl (ErrorResponse (RoleNotAuthorized ''manager'') 403)"
proof -
  have tok: "bearer_token (Some ''Bearer good'') = Some ''good''"
    "bearer_token (Some ''Bearer old'') = Some ''old''"
    "bearer_token (Some ''Bearer forged'') = Some ''forged''"
    "bearer_token None = None"
    by (simp_all add: auth_defs)
  have ver: "demo_verify ''good'' ''s3cret'' = Inr (Some 6)"
    "demo_verify ''old'' ''s3cret'' = Inl TokenExpiredError"
    "demo_verify ''forged'' ''s3cret'' = Inl JsonWebTokenError"
    by (simp_all add: demo_verify_def)
  have usr: "demo_users 6 = Some other_user" "role other_user = ''manager''"
    by (simp_all add: demo_users_def other_user_def)
  have w1: "protect demo_verify ''s3cret'' demo_users (Some ''Bearer good'') = Inr other_user"
    using tok(1) ver(1) usr(1)
      protect_authorize_contract [where verify = demo_verify and secret = "''s3cret''"
        and users = demo_users and authorization = "Some ''Bearer good''"
        and usr = other_user]
    by blast
  have w2: "protect demo_verify ''s3cret'' demo_users None
       = Inl (ErrorResponse NotAuthorizedRoute 401)"
    using tok(4)
      protect_authorize_contract [where verify = demo_verify and secret = "''s3cret''"
        and users = demo_users and authorization = None]
    by simp
  have w3: "protect demo_verify ''s3cret'' demo_users (Some ''Bearer old'')
       = Inl (ErrorResponse NotAuthorizedRoute 401)"
    using tok(2) ver(2)
      protect_authorize_contract [where verify = demo_verify and secret = "''s3cret''"
        and users = demo_users and authorization = "Some ''Bearer old''"
        and token = "''old''" and err = TokenExpiredError]
    by simp
  have w4: "protect demo_verify ''s3cret'' demo_users (Some ''Bearer forged'')
       = Inl (ErrorResponse NotAuthorizedRoute 401)"
    using tok(3) ver(3)
      protect_authorize_contract [where verify = demo_verify and secret = "''s3cret''"
        and users = demo_users and authorization = "Some ''Bearer forged''"
        and token = "''forged''" and err = JsonWebTokenError]
    by simp
  have w5: "protected_route demo_verify ''s3cret'' demo_users [''admin'', ''manager'']
         (Some ''Bearer good'') = Inr other_user"
    using w1 usr(2)
      protect_authorize_contract [where verify = demo_verify and secret = "''s3cret''"
        and users = demo_users and authorization = "Some ''Bearer good''"
        and usr = other_user and roles = "[''admin'', ''manager'']"]
    by simp
  have w6: "protected_route demo_verify ''s3cret'' demo_users [''admin''] (Some ''Bearer good'')
       = Inl (ErrorResponse (RoleNotAuthorized ''manager'') 403)"
    using w1 usr(2)
      protect_authorize_contract [where verify = demo_verify and secret = "''s3cret''"
        and users = demo_users and authorization = "Some ''Bearer good''"
        and usr = other_user and roles = "[''admin'']"]
    by simp
  from w1 w2 w3 w4 w5 w6 show ?thesis by simp
qed

end
